theory Spec2Isabelle
  imports Main "HOL-Library.Sublist"
begin

section \<open>The contact-form endpoint\<close>

text \<open>
  The repository has one piece of logic: the \<open>POST\<close> handler of the contact form. It
  checks two credentials, reads and parses the request body, validates three required
  fields, renders an HTML and a plaintext message, relays them to the mail provider with
  one \<open>fetch\<close>, and answers with a JSON response. Everything is wrapped in one outer
  \<open>try\<close>/\<open>catch\<close>; reading and parsing the body has an inner one.
\<close>

subsection \<open>Values\<close>

text \<open>
  A value produced by \<open>JSON.parse\<close> or by \<open>Response.json()\<close>. Numbers are IEEE doubles in
  the language; they are kept abstract (the type parameter \<open>'n\<close>), and the few operations
  on them that the handler can reach are fields of \<open>runtime\<close> below. \<open>JObj\<close> lists the own
  properties of an object, each key once. \<open>undefined\<close> is \<open>None\<close> of \<open>'n json option\<close>.
\<close>

datatype 'n json =
    JNull
  | JBool bool
  | JNum 'n
  | JStr string
  | JArr "'n json list"
  | JObj "(string \<times> 'n json) list"

text \<open>
  A thrown value, as far as the handler looks at it: whether it is an \<open>Error\<close> instance
  (\<open>parseError instanceof Error\<close>) and its \<open>message\<close> property. Everything the runtime
  throws or rejects with is an object, so reading \<open>.message\<close> from it does not throw.
\<close>

datatype thrown =
    ErrorInstance string
  | OtherObject "string option"

text \<open>\<open>import.meta.env\<close>: each variable is a string or is not set.\<close>

record import_meta_env =
  MJ_APIKEY_PUBLIC :: "string option"
  MJ_APIKEY_PRIVATE :: "string option"
  CONTACT_EMAIL :: "string option"
  CC_EMAIL :: "string option"
  MJ_FROM_EMAIL :: "string option"

text \<open>The inbound request: the handler only awaits \<open>request.text()\<close>, which resolves to
  the body or rejects.\<close>

record request =
  request_text :: "thrown + string"

text \<open>
  The argument of \<open>fetch\<close>. \<open>fetch_body\<close> is the value handed to \<open>JSON.stringify\<close>; the
  text sent is its serialisation.
\<close>

record 'n fetch_request =
  url :: string
  http_method :: string
  fetch_headers :: "(string \<times> string) list"
  fetch_body :: "'n json"

text \<open>What the handler reads of the provider's response: \<open>.ok\<close> and the outcome of
  \<open>.json()\<close>.\<close>

record 'n fetch_response =
  ok :: bool
  json_result :: "thrown + 'n json"

text \<open>
  \<open>new Response(JSON.stringify(b), { status, headers })\<close>: \<open>body\<close> is the value \<open>b\<close> that
  is serialised.
\<close>

record 'n response =
  body :: "'n json"
  status :: nat
  headers :: "(string \<times> string) list"

text \<open>
  What the language and the platform supply. \<open>JSON_parse\<close> returns the value or the
  message of the \<open>SyntaxError\<close> it throws. \<open>Number_truthy\<close> is \<open>ToBoolean\<close> on a number,
  \<open>Number_toString\<close> its decimal rendering, \<open>Number_gt0\<close> the comparison \<open>n > 0\<close>,
  \<open>String_toNumber\<close> the conversion a comparison applies to a string. \<open>base64\<close> is
  \<open>Buffer.from(s).toString("base64")\<close>.
\<close>

record 'n runtime =
  JSON_parse :: "string \<Rightarrow> string + 'n json"
  Number_truthy :: "'n \<Rightarrow> bool"
  Number_toString :: "'n \<Rightarrow> string"
  Number_gt0 :: "'n \<Rightarrow> bool"
  String_toNumber :: "string \<Rightarrow> 'n"
  base64 :: "string \<Rightarrow> string"
  fetch :: "'n fetch_request \<Rightarrow> thrown + 'n fetch_response"

text \<open>The observable effects of one invocation, in order.\<close>

datatype 'n event =
    ReadBody
  | Fetch "'n fetch_request"
  | ConsoleError thrown

text \<open>Sequencing of steps that may throw: the first exception ends the sequence.\<close>

definition andThen :: "thrown + 'a \<Rightarrow> ('a \<Rightarrow> thrown + 'b) \<Rightarrow> thrown + 'b" where
  "andThen m f = (case m of Inl e \<Rightarrow> Inl e | Inr x \<Rightarrow> f x)"

subsection \<open>Operators of the language\<close>

text \<open>\<open>ToBoolean\<close>, as applied by \<open>!\<close>, \<open>||\<close>, \<open>&&\<close> and \<open>?:\<close>.\<close>

fun truthy :: "'n runtime \<Rightarrow> 'n json option \<Rightarrow> bool" where
  "truthy rt None = False"
| "truthy rt (Some JNull) = False"
| "truthy rt (Some (JBool b)) = b"
| "truthy rt (Some (JNum n)) = Number_truthy rt n"
| "truthy rt (Some (JStr s)) = (s \<noteq> [])"
| "truthy rt (Some (JArr xs)) = True"
| "truthy rt (Some (JObj kvs)) = True"

definition env_truthy :: "string option \<Rightarrow> bool" where
  "env_truthy v = (case v of None \<Rightarrow> False | Some s \<Rightarrow> s \<noteq> [])"

text \<open>\<open>v || d\<close> for an environment variable or a message \<open>v\<close> and a string literal \<open>d\<close>.\<close>

definition or_default :: "string option \<Rightarrow> string \<Rightarrow> string" where
  "or_default v d = (if env_truthy v then (case v of None \<Rightarrow> d | Some s \<Rightarrow> s) else d)"

text \<open>\<open>`${v}`\<close> for an environment variable.\<close>

definition env_to_string :: "string option \<Rightarrow> string" where
  "env_to_string v = (case v of None \<Rightarrow> ''undefined'' | Some s \<Rightarrow> s)"

text \<open>The wording of the engine's \<open>TypeError\<close>s is V8's (the deployment target runs on it).\<close>

definition TypeError_to_primitive :: thrown where
  "TypeError_to_primitive = ErrorInstance ''Cannot convert object to primitive value''"

definition TypeError_destructure :: thrown where
  "TypeError_destructure =
     ErrorInstance ''Cannot destructure property 'name' of 'data' as it is null.''"

definition TypeError_read :: "string \<Rightarrow> thrown" where
  "TypeError_read k =
     ErrorInstance (''Cannot read properties of null (reading '' @ [CHR 0x27] @ k @ [CHR 0x27] @ '')'')"

text \<open>
  \<open>ToString\<close>, as applied by a template literal and by \<open>new Error(v)\<close>. An array is
  joined with commas, \<open>null\<close> elements giving the empty string. An object gives
  \<open>[object Object]\<close>, unless it has an own property \<open>toString\<close>: that property is a JSON
  value, not a function, \<open>valueOf\<close> then yields no primitive either, and the conversion
  throws.
\<close>

fun to_string :: "'n runtime \<Rightarrow> 'n json \<Rightarrow> thrown + string"
  and join_elements :: "'n runtime \<Rightarrow> 'n json list \<Rightarrow> thrown + string"
  and element_to_string :: "'n runtime \<Rightarrow> 'n json \<Rightarrow> thrown + string" where
  "to_string rt JNull = Inr ''null''"
| "to_string rt (JBool b) = Inr (if b then ''true'' else ''false'')"
| "to_string rt (JNum n) = Inr (Number_toString rt n)"
| "to_string rt (JStr s) = Inr s"
| "to_string rt (JArr xs) = join_elements rt xs"
| "to_string rt (JObj kvs) =
     (if ''toString'' \<in> set (map fst kvs) then Inl TypeError_to_primitive
      else Inr ''[object Object]'')"
| "join_elements rt [] = Inr []"
| "join_elements rt [x] = element_to_string rt x"
| "join_elements rt (x # y # ys) =
     andThen (element_to_string rt x) (\<lambda>s.
     andThen (join_elements rt (y # ys)) (\<lambda>r. Inr (s @ '','' @ r)))"
| "element_to_string rt JNull = Inr []"
| "element_to_string rt (JBool b) = to_string rt (JBool b)"
| "element_to_string rt (JNum n) = to_string rt (JNum n)"
| "element_to_string rt (JStr s) = to_string rt (JStr s)"
| "element_to_string rt (JArr xs) = to_string rt (JArr xs)"
| "element_to_string rt (JObj kvs) = to_string rt (JObj kvs)"

definition to_string_opt :: "'n runtime \<Rightarrow> 'n json option \<Rightarrow> thrown + string" where
  "to_string_opt rt v = (case v of None \<Rightarrow> Inr ''undefined'' | Some x \<Rightarrow> to_string rt x)"

text \<open>
  Reading a property named \<open>k\<close> from a value that is not \<open>null\<close>, for the names the handler
  reads (\<open>name\<close>, \<open>email\<close>, \<open>phone\<close>, \<open>service\<close>, \<open>event-date\<close>, \<open>message\<close>, \<open>allergies\<close>,
  \<open>Messages\<close>, \<open>ErrorMessage\<close>, \<open>Errors\<close>): none of them is on a prototype, so only an
  object's own property answers.
\<close>

fun own_prop :: "'n json \<Rightarrow> string \<Rightarrow> 'n json option" where
  "own_prop (JObj kvs) k = map_of kvs k"
| "own_prop v k = None"

text \<open>\<open>v.k\<close>: throws on \<open>null\<close>.\<close>

definition get :: "'n json \<Rightarrow> string \<Rightarrow> thrown + 'n json option" where
  "get v k = (if v = JNull then Inl (TypeError_read k) else Inr (own_prop v k))"

text \<open>\<open>v?.k\<close> and \<open>v?.[0]\<close>: \<open>undefined\<close> on \<open>null\<close> and \<open>undefined\<close>.\<close>

definition opt_get :: "'n json option \<Rightarrow> string \<Rightarrow> 'n json option" where
  "opt_get v k = (case v of None \<Rightarrow> None | Some JNull \<Rightarrow> None | Some x \<Rightarrow> own_prop x k)"

fun index0 :: "'n json \<Rightarrow> 'n json option" where
  "index0 (JArr xs) = (case xs of [] \<Rightarrow> None | x # _ \<Rightarrow> Some x)"
| "index0 (JStr s) = (case s of [] \<Rightarrow> None | c # _ \<Rightarrow> Some (JStr [c]))"
| "index0 (JObj kvs) = map_of kvs ''0''"
| "index0 v = None"

definition opt_index0 :: "'n json option \<Rightarrow> 'n json option" where
  "opt_index0 v = (case v of None \<Rightarrow> None | Some JNull \<Rightarrow> None | Some x \<Rightarrow> index0 x)"

text \<open>\<open>v > 0\<close>: the value is converted to a number, an array or object through its string.\<close>

fun gt_zero :: "'n runtime \<Rightarrow> 'n json \<Rightarrow> thrown + bool" where
  "gt_zero rt JNull = Inr False"
| "gt_zero rt (JBool b) = Inr b"
| "gt_zero rt (JNum n) = Inr (Number_gt0 rt n)"
| "gt_zero rt (JStr s) = Inr (Number_gt0 rt (String_toNumber rt s))"
| "gt_zero rt v =
     andThen (to_string rt v) (\<lambda>s. Inr (Number_gt0 rt (String_toNumber rt s)))"

text \<open>\<open>v.length > 0\<close>.\<close>

fun length_gt_zero :: "'n runtime \<Rightarrow> 'n json \<Rightarrow> thrown + bool" where
  "length_gt_zero rt JNull = Inl (TypeError_read ''length'')"
| "length_gt_zero rt (JArr xs) = Inr (xs \<noteq> [])"
| "length_gt_zero rt (JStr s) = Inr (s \<noteq> [])"
| "length_gt_zero rt (JObj kvs) =
     (case map_of kvs ''length'' of None \<Rightarrow> Inr False | Some v \<Rightarrow> gt_zero rt v)"
| "length_gt_zero rt v = Inr False"

subsection \<open>The submission\<close>

text \<open>The seven constants bound by the destructuring of the parsed body.\<close>

record 'n submission =
  name :: "'n json option"
  email :: "'n json option"
  phone :: "'n json option"
  service :: "'n json option"
  eventDate :: "'n json option"
  message :: "'n json option"
  allergies :: "'n json option"

text \<open>\<open>const { name, email, phone, service, "event-date": eventDate, message, allergies } =
  data\<close>: destructuring \<open>null\<close> throws; any other value yields its properties.\<close>

definition destructure :: "'n json \<Rightarrow> thrown + 'n submission" where
  "destructure data =
     (if data = JNull then Inl TypeError_destructure
      else Inr \<lparr>name = own_prop data ''name'',
                email = own_prop data ''email'',
                phone = own_prop data ''phone'',
                service = own_prop data ''service'',
                eventDate = own_prop data ''event-date'',
                message = own_prop data ''message'',
                allergies = own_prop data ''allergies''\<rparr>)"

subsection \<open>Rendering\<close>

text \<open>Every line of the two template literals starts with a newline and three tabs; the
  closing line has a newline and two tabs.\<close>

definition indent :: string where
  "indent = [CHR 0x0A, CHR 0x09, CHR 0x09, CHR 0x09]"

definition closing :: string where
  "closing = [CHR 0x0A, CHR 0x09, CHR 0x09]"

definition placeholder :: string where
  "placeholder = ''No message provided''"

text \<open>\<open>message || "No message provided"\<close>.\<close>

definition message_or_placeholder :: "'n runtime \<Rightarrow> 'n json option \<Rightarrow> 'n json option" where
  "message_or_placeholder rt m = (if truthy rt m then m else Some (JStr placeholder))"

text \<open>\<open>${v ? `lead${v}trail` : ""}\<close>: an optional field is rendered with its label when
  it is truthy, and as the empty string otherwise.\<close>

definition optional_section ::
  "'n runtime \<Rightarrow> 'n json option \<Rightarrow> string \<Rightarrow> string \<Rightarrow> thrown + string" where
  "optional_section rt v lead trail =
     (if truthy rt v
      then andThen (to_string_opt rt v) (\<lambda>x. Inr (lead @ x @ trail))
      else Inr [])"

text \<open>The HTML template literal, as a function of its seven substitutions.\<close>

definition html_template ::
  "string \<Rightarrow> string \<Rightarrow> string \<Rightarrow> string \<Rightarrow> string \<Rightarrow> string \<Rightarrow> string \<Rightarrow> string" where
  "html_template n e ph sv ed m al =
     indent @ ''<h2>New Contact Form Submission</h2>''
   @ indent @ ''<p><strong>Name:</strong> '' @ n @ ''</p>''
   @ indent @ ''<p><strong>Email:</strong> '' @ e @ ''</p>''
   @ indent @ ph
   @ indent @ ''<p><strong>Service Type:</strong> '' @ sv @ ''</p>''
   @ indent @ ed
   @ indent @ ''<p><strong>Message:</strong></p>''
   @ indent @ ''<p>'' @ m @ ''</p>''
   @ indent @ al
   @ closing"

definition htmlContent :: "'n runtime \<Rightarrow> 'n submission \<Rightarrow> thrown + string" where
  "htmlContent rt s =
     andThen (to_string_opt rt (name s)) (\<lambda>n.
     andThen (to_string_opt rt (email s)) (\<lambda>e.
     andThen (optional_section rt (phone s) ''<p><strong>Phone:</strong> '' ''</p>'') (\<lambda>ph.
     andThen (to_string_opt rt (service s)) (\<lambda>sv.
     andThen (optional_section rt (eventDate s)
                ''<p><strong>Event Date:</strong> '' ''</p>'') (\<lambda>ed.
     andThen (to_string_opt rt (message_or_placeholder rt (message s))) (\<lambda>m.
     andThen (optional_section rt (allergies s)
                ''<p><strong>Allergies/Dietary Requirements:</strong></p><p>'' ''</p>'') (\<lambda>al.
     Inr (html_template n e ph sv ed m al))))))))"

text \<open>The plaintext template literal, as a function of its seven substitutions.\<close>

definition text_template ::
  "string \<Rightarrow> string \<Rightarrow> string \<Rightarrow> string \<Rightarrow> string \<Rightarrow> string \<Rightarrow> string \<Rightarrow> string" where
  "text_template n e ph sv ed m al =
     indent @ ''New Contact Form Submission''
   @ indent
   @ indent @ ''Name: '' @ n
   @ indent @ ''Email: '' @ e
   @ indent @ ph
   @ indent @ ''Service Type: '' @ sv
   @ indent @ ed
   @ indent
   @ indent @ ''Message:''
   @ indent @ m
   @ indent
   @ indent @ al
   @ closing"

definition textContent :: "'n runtime \<Rightarrow> 'n submission \<Rightarrow> thrown + string" where
  "textContent rt s =
     andThen (to_string_opt rt (name s)) (\<lambda>n.
     andThen (to_string_opt rt (email s)) (\<lambda>e.
     andThen (optional_section rt (phone s) ''Phone: '' []) (\<lambda>ph.
     andThen (to_string_opt rt (service s)) (\<lambda>sv.
     andThen (optional_section rt (eventDate s) ''Event Date: '' []) (\<lambda>ed.
     andThen (to_string_opt rt (message_or_placeholder rt (message s))) (\<lambda>m.
     andThen (optional_section rt (allergies s)
                (''Allergies/Dietary Requirements:'' @ [CHR 0x0A]) []) (\<lambda>al.
     Inr (text_template n e ph sv ed m al))))))))"

text \<open>\<open>`New Contact Form Submission - ${service}`\<close>.\<close>

definition Subject :: "'n runtime \<Rightarrow> 'n submission \<Rightarrow> thrown + string" where
  "Subject rt s =
     andThen (to_string_opt rt (service s)) (\<lambda>sv.
       Inr (''New Contact Form Submission - '' @ sv))"

subsection \<open>The outbound call\<close>

text \<open>A property of an object literal, as \<open>JSON.stringify\<close> sees it: a property whose value
  is \<open>undefined\<close> is left out.\<close>

definition entry :: "string \<Rightarrow> 'n json option \<Rightarrow> (string \<times> 'n json) list" where
  "entry k v = (case v of None \<Rightarrow> [] | Some x \<Rightarrow> [(k, x)])"

text \<open>The payload \<open>{ Messages: [ { From, To, Bcc, Subject, TextPart, HTMLPart, ReplyTo } ] }\<close>.\<close>

definition payload ::
  "import_meta_env \<Rightarrow> 'n submission \<Rightarrow> string \<Rightarrow> string \<Rightarrow> string \<Rightarrow> 'n json" where
  "payload env s subject plain html =
     (let recipientEmail = or_default (CONTACT_EMAIL env) ''tableofthreecatering@gmail.com'';
          ccEmail = or_default (CC_EMAIL env) ''jp@arctic.studio''
      in JObj [(''Messages'', JArr [JObj [
           (''From'', JObj [
              (''Email'', JStr (or_default (MJ_FROM_EMAIL env) ''noreply@tableofthree.com'')),
              (''Name'', JStr ''Table of Three Contact Form'')]),
           (''To'', JArr [JObj [
              (''Email'', JStr recipientEmail), (''Name'', JStr ''Table of Three'')]]),
           (''Bcc'', JArr [JObj [(''Email'', JStr ccEmail), (''Name'', JStr ''JP'')]]),
           (''Subject'', JStr subject),
           (''TextPart'', JStr plain),
           (''HTMLPart'', JStr html),
           (''ReplyTo'', JObj (entry ''Email'' (email s) @ entry ''Name'' (name s)))]])])"

text \<open>The argument of \<open>fetch\<close>: both bodies are rendered first, then the headers and the
  payload are built.\<close>

definition mailjet_request ::
  "'n runtime \<Rightarrow> import_meta_env \<Rightarrow> 'n submission \<Rightarrow> thrown + 'n fetch_request" where
  "mailjet_request rt env s =
     andThen (htmlContent rt s) (\<lambda>html.
     andThen (textContent rt s) (\<lambda>plain.
     andThen (Subject rt s) (\<lambda>subject.
       Inr \<lparr>url = ''https://api.mailjet.com/v3.1/send'',
            http_method = ''POST'',
            fetch_headers =
              [(''Content-Type'', ''application/json''),
               (''Authorization'',
                ''Basic '' @ base64 rt (env_to_string (MJ_APIKEY_PUBLIC env) @ '':''
                                        @ env_to_string (MJ_APIKEY_PRIVATE env)))],
            fetch_body = payload env s subject plain html\<rparr>)))"

subsection \<open>Responses\<close>

definition json_response :: "'n json \<Rightarrow> nat \<Rightarrow> 'n response" where
  "json_response b st =
     \<lparr>body = b, status = st, headers = [(''Content-Type'', ''application/json'')]\<rparr>"

definition not_configured :: "'n response" where
  "not_configured =
     json_response (JObj [
       (''error'', JStr ''Email service not configured''),
       (''details'', JStr ''Mailjet API keys are missing. Please configure MJ_APIKEY_PUBLIC and MJ_APIKEY_PRIVATE environment variables.'')])
       500"

definition body_empty :: "'n response" where
  "body_empty = json_response (JObj [(''error'', JStr ''Request body is empty'')]) 400"

definition invalid_json :: "string \<Rightarrow> 'n response" where
  "invalid_json d =
     json_response (JObj [
       (''error'', JStr ''Invalid JSON in request body''),
       (''details'', JStr d)]) 400"

definition missing_fields :: "'n response" where
  "missing_fields = json_response (JObj [(''error'', JStr ''Missing required fields'')]) 400"

definition sent :: "'n response" where
  "sent =
     json_response (JObj [
       (''success'', JBool True),
       (''message'', JStr ''Email sent successfully'')]) 200"

declare not_configured_def [code_unfold]
declare body_empty_def [code_unfold]
declare missing_fields_def [code_unfold]
declare sent_def [code_unfold]

text \<open>\<open>error.message\<close>.\<close>

definition message_of :: "thrown \<Rightarrow> string option" where
  "message_of e = (case e of ErrorInstance m \<Rightarrow> Some m | OtherObject m \<Rightarrow> m)"

text \<open>The response of the outer \<open>catch\<close>.\<close>

definition failed :: "thrown \<Rightarrow> 'n response" where
  "failed e =
     json_response (JObj [
       (''error'', JStr ''Failed to send email''),
       (''details'', JStr (or_default (message_of e) ''Unknown error''))]) 500"

subsection \<open>The handler\<close>

text \<open>
  The inner \<open>try\<close>/\<open>catch\<close>: the body is read, an empty body is answered at once, the
  text is parsed; whatever is thrown on the way is answered as invalid JSON. \<open>Inl\<close> is a
  response returned from here, \<open>Inr\<close> the parsed \<open>data\<close>.
\<close>

definition parse_body :: "'n runtime \<Rightarrow> request \<Rightarrow> 'n response + 'n json" where
  "parse_body rt rq =
     (case request_text rq of
        Inl parseError \<Rightarrow>
          Inl (invalid_json (case parseError of
                               ErrorInstance m \<Rightarrow> m
                             | OtherObject _ \<Rightarrow> ''Unknown error''))
      | Inr b \<Rightarrow>
          if b = [] then Inl body_empty
          else (case JSON_parse rt b of
                  Inl m \<Rightarrow> Inl (invalid_json m)
                | Inr data \<Rightarrow> Inr data))"

text \<open>\<open>mailjetResponse.ok && result.Messages && result.Messages.length > 0\<close>, as the
  condition of the \<open>if\<close>.\<close>

definition delivered :: "'n runtime \<Rightarrow> bool \<Rightarrow> 'n json \<Rightarrow> thrown + bool" where
  "delivered rt is_ok result =
     (if \<not> is_ok then Inr False
      else andThen (get result ''Messages'') (\<lambda>ms.
             case ms of
               None \<Rightarrow> Inr False
             | Some v \<Rightarrow> if truthy rt (Some v) then length_gt_zero rt v else Inr False))"

text \<open>\<open>ms?.[0]?.Errors?.[0]?.ErrorMessage\<close>, for \<open>ms\<close> the value of \<open>result.Messages\<close>.\<close>

definition nested_error :: "'n json option \<Rightarrow> 'n json option" where
  "nested_error ms = opt_get (opt_index0 (opt_get (opt_index0 ms) ''Errors'')) ''ErrorMessage''"

text \<open>\<open>result.ErrorMessage || result.Messages?.[0]?.Errors?.[0]?.ErrorMessage ||
  "Failed to send email"\<close>.\<close>

definition errorMsg :: "'n runtime \<Rightarrow> 'n json \<Rightarrow> thrown + 'n json option" where
  "errorMsg rt result =
     andThen (get result ''ErrorMessage'') (\<lambda>top.
       if truthy rt top then Inr top
       else andThen (get result ''Messages'') (\<lambda>ms.
         if truthy rt (nested_error ms) then Inr (nested_error ms)
         else Inr (Some (JStr ''Failed to send email''))))"

text \<open>From \<open>await mailjetResponse.json()\<close> to the end of the \<open>try\<close> block: a response, or
  the \<open>Error\<close> thrown with the provider's message.\<close>

definition provider_outcome :: "'n runtime \<Rightarrow> 'n fetch_response \<Rightarrow> thrown + 'n response" where
  "provider_outcome rt mailjetResponse =
     andThen (json_result mailjetResponse) (\<lambda>result.
     andThen (delivered rt (ok mailjetResponse) result) (\<lambda>d.
       if d then Inr sent
       else andThen (errorMsg rt result) (\<lambda>msg.
            andThen (to_string_opt rt msg) (\<lambda>m. Inl (ErrorInstance m)))))"

text \<open>The body of the outer \<open>try\<close>, with the effects it has had when it ends.\<close>

definition POST_try ::
  "'n runtime \<Rightarrow> import_meta_env \<Rightarrow> request \<Rightarrow> 'n event list \<times> (thrown + 'n response)" where
  "POST_try rt env rq =
     (let apiKey = MJ_APIKEY_PUBLIC env; apiSecret = MJ_APIKEY_PRIVATE env
      in if \<not> env_truthy apiKey \<or> \<not> env_truthy apiSecret then ([], Inr not_configured)
         else (case parse_body rt rq of
                 Inl early \<Rightarrow> ([ReadBody], Inr early)
               | Inr data \<Rightarrow>
                   (case destructure data of
                      Inl e \<Rightarrow> ([ReadBody], Inl e)
                    | Inr s \<Rightarrow>
                        if \<not> truthy rt (name s) \<or> \<not> truthy rt (email s)
                           \<or> \<not> truthy rt (service s)
                        then ([ReadBody], Inr missing_fields)
                        else (case mailjet_request rt env s of
                                Inl e \<Rightarrow> ([ReadBody], Inl e)
                              | Inr call \<Rightarrow>
                                  ([ReadBody, Fetch call],
                                   andThen (fetch rt call) (provider_outcome rt))))))"

text \<open>The handler: the outer \<open>catch\<close> logs what was thrown and answers with status 500.\<close>

definition POST ::
  "'n runtime \<Rightarrow> import_meta_env \<Rightarrow> request \<Rightarrow> 'n event list \<times> 'n response" where
  "POST rt env rq =
     (case POST_try rt env rq of
        (evs, Inr r) \<Rightarrow> (evs, r)
      | (evs, Inl e) \<Rightarrow> (evs @ [ConsoleError e], failed e))"

section \<open>Reading a response\<close>

text \<open>The body is a JSON object with a field \<open>k\<close>.\<close>

definition has_field :: "'n json \<Rightarrow> string \<Rightarrow> bool" where
  "has_field v k = (case v of JObj kvs \<Rightarrow> k \<in> set (map fst kvs) | _ \<Rightarrow> False)"

text \<open>The \<open>details\<close> field of a response body.\<close>

definition details :: "'n response \<Rightarrow> 'n json option" where
  "details r = own_prop (body r) ''details''"

section \<open>Well-formed submissions\<close>




text \<open>The labels that introduce the phone, event-date and allergies sections, in both
  renderings.\<close>

definition optional_labels :: "string list" where
  "optional_labels = [''Phone:'', ''Event Date:'', ''Allergies/Dietary Requirements:'']"


text \<open>No non-empty prefix of \<open>l\<close> ends \<open>a\<close>: an occurrence of \<open>l\<close> cannot start in \<open>a\<close> and
  run on into what follows.\<close>

definition no_overlap :: "'a list \<Rightarrow> 'a list \<Rightarrow> bool" where
  "no_overlap l a = list_all (\<lambda>p. p = [] \<or> \<not> suffix p a) (prefixes l)"

section \<open>Example runs\<close>

text \<open>
  Concrete inputs for the closed theorems below. No number occurs in them, so the number
  type is \<open>unit\<close>. \<open>example_parse\<close> answers for the body texts used, among them \<open>null\<close> and
  the unfinished \<open>{\<close>; the provider is one of the stubs that follow.
\<close>

definition body_full :: string where
  \<open>body_full = ''{"name":"Ada","email":"ada@example.org","phone":"555-0100","service":"Wedding","event-date":"2026-06-01","message":"Hello","allergies":"Nuts"}''\<close>

definition data_full :: "unit json" where
  "data_full = JObj [
     (''name'', JStr ''Ada''), (''email'', JStr ''ada@example.org''),
     (''phone'', JStr ''555-0100''), (''service'', JStr ''Wedding''),
     (''event-date'', JStr ''2026-06-01''), (''message'', JStr ''Hello''),
     (''allergies'', JStr ''Nuts'')]"

definition body_min :: string where
  \<open>body_min = ''{"name":"Ada","email":"ada@example.org","service":"Wedding"}''\<close>

definition data_min :: "unit json" where
  "data_min = JObj [
     (''name'', JStr ''Ada''), (''email'', JStr ''ada@example.org''),
     (''service'', JStr ''Wedding'')]"

definition body_no_service :: string where
  \<open>body_no_service = ''{"name":"Ada","email":"ada@example.org","service":""}''\<close>

definition data_no_service :: "unit json" where
  "data_no_service = JObj [
     (''name'', JStr ''Ada''), (''email'', JStr ''ada@example.org''),
     (''service'', JStr [])]"

definition example_parse :: "string \<Rightarrow> string + unit json" where
  "example_parse s =
     (if s = body_full then Inr data_full
      else if s = body_min then Inr data_min
      else if s = body_no_service then Inr data_no_service
      else if s = ''null'' then Inr JNull
      else Inl ''Unexpected end of JSON input'')"

definition example_runtime ::
  "(unit fetch_request \<Rightarrow> thrown + unit fetch_response) \<Rightarrow> unit runtime" where
  "example_runtime provider =
     \<lparr>JSON_parse = example_parse,
      Number_truthy = (\<lambda>_. True),
      Number_toString = (\<lambda>_. ''1''),
      Number_gt0 = (\<lambda>_. True),
      String_toNumber = (\<lambda>_. ()),
      base64 = (\<lambda>s. if s = ''pub:priv'' then ''cHViOnByaXY='' else []),
      fetch = provider\<rparr>"

definition env_ok :: import_meta_env where
  "env_ok = \<lparr>MJ_APIKEY_PUBLIC = Some ''pub'', MJ_APIKEY_PRIVATE = Some ''priv'',
             CONTACT_EMAIL = None, CC_EMAIL = None, MJ_FROM_EMAIL = None\<rparr>"

definition env_no_public :: import_meta_env where
  "env_no_public = \<lparr>MJ_APIKEY_PUBLIC = None, MJ_APIKEY_PRIVATE = Some ''priv'',
                    CONTACT_EMAIL = None, CC_EMAIL = None, MJ_FROM_EMAIL = None\<rparr>"

definition posting :: "string \<Rightarrow> request" where
  "posting b = \<lparr>request_text = Inr b\<rparr>"

text \<open>A request whose body cannot be read: \<open>request.text()\<close> rejects.\<close>

definition unreadable :: request where
  "unreadable = \<lparr>request_text = Inl (ErrorInstance ''Body is unusable'')\<rparr>"

text \<open>The provider accepts the message.\<close>

definition accepted :: "unit fetch_response" where
  "accepted = \<lparr>ok = True,
     json_result = Inr (JObj [(''Messages'', JArr [JObj [(''Status'', JStr ''success'')]])])\<rparr>"

text \<open>The provider refuses the call with a top-level message.\<close>

definition refused :: "unit fetch_response" where
  "refused = \<lparr>ok = False,
     json_result = Inr (JObj [(''ErrorMessage'', JStr ''API key authentication failure'')])\<rparr>"

text \<open>The provider refuses the message with a per-message error.\<close>

definition refused_message :: "unit fetch_response" where
  "refused_message = \<lparr>ok = False,
     json_result = Inr (JObj [(''Messages'', JArr [JObj [
       (''Status'', JStr ''error''),
       (''Errors'', JArr [JObj [(''ErrorMessage'', JStr ''Invalid email address'')]])]])])\<rparr>"

text \<open>The provider refuses the call with a top-level message that is the empty string.\<close>

definition refused_blank :: "unit fetch_response" where
  "refused_blank = \<lparr>ok = False, json_result = Inr (JObj [(''ErrorMessage'', JStr [])])\<rparr>"

text \<open>The provider answers with a non-ok status and an empty object.\<close>

definition refused_silent :: "unit fetch_response" where
  "refused_silent = \<lparr>ok = False, json_result = Inr (JObj [])\<rparr>"

text \<open>A gateway in front of the provider answers with a non-ok status and a body that is
  not JSON: \<open>.json()\<close> rejects.\<close>

definition bad_gateway :: "unit fetch_response" where
  "bad_gateway = \<lparr>ok = False,
     json_result = Inl (ErrorInstance ''Unexpected token < in JSON at position 0'')\<rparr>"

text \<open>The provider answers with a non-ok status and the JSON text \<open>null\<close>.\<close>

definition answered_null :: "unit fetch_response" where
  "answered_null = \<lparr>ok = False, json_result = Inr JNull\<rparr>"

text \<open>The provider cannot be reached: \<open>fetch\<close> rejects.\<close>

definition unreachable :: "unit fetch_request \<Rightarrow> thrown + unit fetch_response" where
  "unreachable call = Inl (ErrorInstance ''fetch failed'')"

definition answering :: "unit fetch_response \<Rightarrow> unit fetch_request \<Rightarrow> thrown + unit fetch_response" where
  "answering r call = Inr r"

text \<open>The call the handler makes for \<open>body_min\<close> under \<open>env_ok\<close>.\<close>

definition call_min :: "unit fetch_request" where
  "call_min =
     \<lparr>url = ''https://api.mailjet.com/v3.1/send'',
      http_method = ''POST'',
      fetch_headers = [(''Content-Type'', ''application/json''),
                       (''Authorization'', ''Basic cHViOnByaXY='')],
      fetch_body = JObj [(''Messages'', JArr [JObj [
        (''From'', JObj [(''Email'', JStr ''noreply@tableofthree.com''),
                        (''Name'', JStr ''Table of Three Contact Form'')]),
        (''To'', JArr [JObj [(''Email'', JStr ''tableofthreecatering@gmail.com''),
                            (''Name'', JStr ''Table of Three'')]]),
        (''Bcc'', JArr [JObj [(''Email'', JStr ''jp@arctic.studio''), (''Name'', JStr ''JP'')]]),
        (''Subject'', JStr ''New Contact Form Submission - Wedding''),
        (''TextPart'', JStr (indent @ ''New Contact Form Submission'' @ indent
           @ indent @ ''Name: Ada'' @ indent @ ''Email: ada@example.org'' @ indent
           @ indent @ ''Service Type: Wedding'' @ indent @ indent @ indent @ ''Message:''
           @ indent @ ''No message provided'' @ indent @ indent @ closing)),
        (''HTMLPart'', JStr (indent @ ''<h2>New Contact Form Submission</h2>''
           @ indent @ ''<p><strong>Name:</strong> Ada</p>''
           @ indent @ ''<p><strong>Email:</strong> ada@example.org</p>''
           @ indent @ indent @ ''<p><strong>Service Type:</strong> Wedding</p>''
           @ indent @ indent @ ''<p><strong>Message:</strong></p>''
           @ indent @ ''<p>No message provided</p>'' @ indent @ closing)),
        (''ReplyTo'', JObj [(''Email'', JStr ''ada@example.org''), (''Name'', JStr ''Ada'')])]])]\<rparr>"

text \<open>Submissions as the destructuring yields them.\<close>

definition submission_min :: "unit submission" where
  "submission_min =
     \<lparr>name = Some (JStr ''Ada''), email = Some (JStr ''ada@example.org''), phone = None,
      service = Some (JStr ''Wedding''), eventDate = None, message = None, allergies = None\<rparr>"


text \<open>A visitor who typed a phone number into the name field and left the phone field
  empty.\<close>

definition submission_phone_in_name :: "unit submission" where
  "submission_phone_in_name =
     \<lparr>name = Some (JStr ''Ada Phone: 555-0100''), email = Some (JStr ''ada@example.org''),
      phone = None, service = Some (JStr ''Wedding''), eventDate = None, message = None,
      allergies = None\<rparr>"

section \<open>Properties of the handler\<close>

subsection \<open>Auxiliary facts\<close>

lemmas example_defs =
  example_runtime_def example_parse_def env_ok_def env_no_public_def posting_def
  body_full_def data_full_def body_min_def data_min_def body_no_service_def
  data_no_service_def accepted_def refused_def refused_message_def refused_silent_def
  refused_blank_def
  bad_gateway_def answered_null_def unreachable_def answering_def unreadable_def

lemmas handler_defs =
  POST_def POST_try_def parse_body_def destructure_def env_truthy_def mailjet_request_def
  htmlContent_def textContent_def optional_section_def html_template_def
  text_template_def Subject_def to_string_opt_def andThen_def
  message_or_placeholder_def provider_outcome_def delivered_def get_def errorMsg_def
  nested_error_def opt_get_def opt_index0_def payload_def entry_def or_default_def env_to_string_def

lemmas response_defs =
  json_response_def not_configured_def body_empty_def invalid_json_def missing_fields_def
  sent_def failed_def has_field_def details_def

lemma run_min:
  "POST (example_runtime (answering r)) env_ok (posting body_min) =
     (case provider_outcome (example_runtime (answering r)) r of
        Inr resp \<Rightarrow> ([ReadBody, Fetch call_min], resp)
      | Inl e \<Rightarrow> ([ReadBody, Fetch call_min, ConsoleError e], failed e))"
  by (simp add: handler_defs example_defs call_min_def indent_def closing_def placeholder_def
           split: sum.splits)

lemma reach_min:
  "Fetch call_min \<in> set (fst (POST (example_runtime (answering r)) env_ok (posting body_min)))"
  by (simp add: run_min split: sum.splits)

lemma answering_fetch: "fetch (example_runtime (answering r)) call = Inr r"
  by (simp add: example_runtime_def answering_def)

lemma POST_not_configured:
  "\<not> env_truthy (MJ_APIKEY_PUBLIC env) \<or> \<not> env_truthy (MJ_APIKEY_PRIVATE env) \<Longrightarrow>
   POST rt env rq = ([], not_configured)"
  by (auto simp: POST_def POST_try_def)

text \<open>A run whose trace holds a call to the provider ends as that call's outcome decides.\<close>

lemma POST_after_fetch:
  assumes "Fetch call \<in> set (fst (POST rt env rq))"
  shows "snd (POST rt env rq) =
           (case andThen (fetch rt call) (provider_outcome rt) of
              Inl e \<Rightarrow> failed e
            | Inr r \<Rightarrow> r)"
  using assms
  by (auto simp: POST_def POST_try_def Let_def split: sum.splits if_splits)

text \<open>With both credentials configured, a body that parses to a value with truthy required
  fields, and a rendering that does not throw, the handler reads the body and makes the
  one call \<open>mailjet_request\<close> describes.\<close>

lemma POST_sends:
  assumes "env_truthy (MJ_APIKEY_PUBLIC env)" and "env_truthy (MJ_APIKEY_PRIVATE env)"
    and "request_text rq = Inr b" and "b \<noteq> []" and "JSON_parse rt b = Inr data"
    and "destructure data = Inr s"
    and "truthy rt (name s)" and "truthy rt (email s)" and "truthy rt (service s)"
    and "mailjet_request rt env s = Inr call"
  shows "take 2 (fst (POST rt env rq)) = [ReadBody, Fetch call]"
  using assms
  by (simp add: POST_def POST_try_def parse_body_def split: sum.splits)

text \<open>What is thrown inside the outer \<open>try\<close> is answered by the outer \<open>catch\<close>.\<close>

lemma POST_caught:
  "POST_try rt env rq = (evs, Inl e) \<Longrightarrow> POST rt env rq = (evs @ [ConsoleError e], failed e)"
  by (simp add: POST_def)

lemma details_failed:
  "details (failed e) = Some (JStr (or_default (message_of e) ''Unknown error''))"
  by (simp add: details_def failed_def json_response_def)

lemma status_failed: "status (failed e) = 500"
  by (simp add: failed_def json_response_def)

subsection \<open>Provider success\<close>

text \<open>
  C1. In every invocation in which the call to the provider returns an ok status and a
  decoded response whose \<open>Messages\<close> field is a non-empty list, the handler answers with
  status 200 and the body \<open>{ success: true, message: "Email sent successfully" }\<close>.
\<close>

theorem provider_success_200:
  assumes "Fetch call \<in> set (fst (POST rt env rq))"
    and "fetch rt call = Inr mailjetResponse"
    and "ok mailjetResponse"
    and "json_result mailjetResponse = Inr result"
    and "own_prop result ''Messages'' = Some (JArr (m # ms))"
  shows "status (snd (POST rt env rq)) = 200 \<and>
         body (snd (POST rt env rq)) =
           JObj [(''success'', JBool True), (''message'', JStr ''Email sent successfully'')]"
proof -
  from assms(5) have "result \<noteq> JNull"
    by auto
  with assms(3-5) have "provider_outcome rt mailjetResponse = Inr sent"
    by (simp add: provider_outcome_def delivered_def get_def andThen_def)
  with POST_after_fetch [OF assms(1)] assms(2) have "snd (POST rt env rq) = sent"
    by (simp add: andThen_def)
  then show ?thesis
    by (simp add: sent_def json_response_def)
qed

theorem provider_success_200_witness:
  "Fetch call_min \<in> set (fst (POST (example_runtime (answering accepted)) env_ok (posting body_min)))
   \<and> ok accepted
   \<and> status (snd (POST (example_runtime (answering accepted)) env_ok (posting body_min))) = 200
   \<and> body (snd (POST (example_runtime (answering accepted)) env_ok (posting body_min))) =
       JObj [(''success'', JBool True), (''message'', JStr ''Email sent successfully'')]"
proof -
  have reach: "Fetch call_min \<in> set (fst (POST (example_runtime (answering accepted)) env_ok (posting body_min)))"
    by (simp add: run_min provider_outcome_def delivered_def get_def andThen_def accepted_def)
  have answer: "fetch (example_runtime (answering accepted)) call_min = Inr accepted"
    by (simp add: example_runtime_def answering_def)
  have is_ok: "ok accepted"
    by (simp add: accepted_def)
  have decoded: "json_result accepted = Inr (JObj [(''Messages'', JArr [JObj [(''Status'', JStr ''success'')]])])"
    by (simp add: accepted_def)
  have msgs: "own_prop (JObj [(''Messages'', JArr [JObj [(''Status'', JStr ''success'')]])] :: unit json) ''Messages''
                = Some (JArr (JObj [(''Status'', JStr ''success'')] # []))"
    by simp
  from provider_success_200 [OF reach answer is_ok decoded msgs] reach is_ok
  show ?thesis by simp
qed

subsection \<open>Missing credentials\<close>

text \<open>
  C4. If either of the two credentials \<open>MJ_APIKEY_PUBLIC\<close>, \<open>MJ_APIKEY_PRIVATE\<close> is absent
  from the environment, the handler answers with status 500 (service not configured),
  whatever the request is; the trace of the invocation is empty: the body has not been
  read and no call to the provider has been made.
\<close>

theorem credentials_missing_500:
  assumes "MJ_APIKEY_PUBLIC env = None \<or> MJ_APIKEY_PRIVATE env = None"
  shows "fst (POST rt env rq) = [] \<and>
         status (snd (POST rt env rq)) = 500 \<and>
         body (snd (POST rt env rq)) = JObj [
           (''error'', JStr ''Email service not configured''),
           (''details'', JStr ''Mailjet API keys are missing. Please configure MJ_APIKEY_PUBLIC and MJ_APIKEY_PRIVATE environment variables.'')]"
proof -
  from assms have "\<not> env_truthy (MJ_APIKEY_PUBLIC env) \<or> \<not> env_truthy (MJ_APIKEY_PRIVATE env)"
    by (auto simp: env_truthy_def)
  then have "POST rt env rq = ([], not_configured)"
    by (rule POST_not_configured)
  then show ?thesis
    by (simp add: not_configured_def json_response_def)
qed

theorem credentials_missing_500_witness:
  "MJ_APIKEY_PUBLIC env_no_public = None
   \<and> example_parse body_full = Inr data_full
   \<and> fst (POST (example_runtime (answering accepted)) env_no_public (posting body_full)) = []
   \<and> status (snd (POST (example_runtime (answering accepted)) env_no_public (posting body_full))) = 500"
proof -
  have absent: "MJ_APIKEY_PUBLIC env_no_public = None \<or> MJ_APIKEY_PRIVATE env_no_public = None"
    by (simp add: env_no_public_def)
  have "example_parse body_full = Inr data_full"
    by (simp add: example_parse_def)
  with credentials_missing_500 [OF absent, of "example_runtime (answering accepted)" "posting body_full"]
  show ?thesis
    by (simp add: env_no_public_def)
qed

subsection \<open>Shape of every response\<close>

text \<open>
  C10. The handler is a total function from the runtime, the environment and the request
  to one response. On every branch the response has status 200, 400 or 500 and the header
  \<open>Content-Type: application/json\<close>, and its body is a JSON object with a \<open>success\<close> field
  when the status is 200 and with an \<open>error\<close> field when the status is 400 or 500.
\<close>

theorem response_shape:
  "headers (snd (POST rt env rq)) = [(''Content-Type'', ''application/json'')] \<and>
   (status (snd (POST rt env rq)) = 200 \<and> has_field (body (snd (POST rt env rq))) ''success''
    \<or> status (snd (POST rt env rq)) = 400 \<and> has_field (body (snd (POST rt env rq))) ''error''
    \<or> status (snd (POST rt env rq)) = 500 \<and> has_field (body (snd (POST rt env rq))) ''error'')"
proof -
  have outcome: "provider_outcome rt mr = Inr r \<Longrightarrow> r = sent" for mr r
    by (auto simp: provider_outcome_def andThen_def split: sum.splits if_splits)
  have "snd (POST rt env rq) \<in> {not_configured, body_empty, missing_fields, sent}
        \<or> (\<exists>d. snd (POST rt env rq) = invalid_json d)
        \<or> (\<exists>e. snd (POST rt env rq) = failed e)"
    by (auto simp: POST_def POST_try_def Let_def parse_body_def andThen_def
             dest: outcome split: sum.splits if_splits)
  then show ?thesis
    by (auto simp: response_defs)
qed

theorem response_shape_witness:
  "headers (snd (POST (example_runtime (answering accepted)) env_ok (posting body_min)))
     = [(''Content-Type'', ''application/json'')]
   \<and> status (snd (POST (example_runtime (answering accepted)) env_ok (posting body_min))) = 200
   \<and> has_field (body (snd (POST (example_runtime (answering accepted)) env_ok (posting body_min))))
        ''success''"
  using response_shape [of "example_runtime (answering accepted)" env_ok "posting body_min"]
  by (simp add: run_min provider_outcome_def delivered_def get_def andThen_def accepted_def
        sent_def json_response_def)

subsection \<open>Unreadable bodies\<close>

lemma POST_body_empty:
  assumes "env_truthy (MJ_APIKEY_PUBLIC env)" and "env_truthy (MJ_APIKEY_PRIVATE env)"
    and "request_text rq = Inr []"
  shows "POST rt env rq = ([ReadBody], body_empty)"
  using assms by (simp add: POST_def POST_try_def parse_body_def)

lemma POST_invalid_json:
  assumes "env_truthy (MJ_APIKEY_PUBLIC env)" and "env_truthy (MJ_APIKEY_PRIVATE env)"
    and "request_text rq = Inr b" and "b \<noteq> []" and "JSON_parse rt b = Inl m"
  shows "POST rt env rq = ([ReadBody], invalid_json m)"
  using assms by (simp add: POST_def POST_try_def parse_body_def)

lemma POST_text_rejected:
  assumes "env_truthy (MJ_APIKEY_PUBLIC env)" and "env_truthy (MJ_APIKEY_PRIVATE env)"
    and "request_text rq = Inl e"
  shows "POST rt env rq =
           ([ReadBody], invalid_json (case e of ErrorInstance m \<Rightarrow> m
                                       | OtherObject _ \<Rightarrow> ''Unknown error''))"
  using assms by (simp add: POST_def POST_try_def parse_body_def)

text \<open>
  C6, as stated: every request with an empty body is answered with status 400. It fails
  when a credential is missing: the credentials are checked first, and the answer is 500.
\<close>

theorem empty_body_counterexample:
  "request_text (posting []) = Inr []
   \<and> status (snd (POST (example_runtime (answering accepted)) env_no_public (posting []))) = 500"
  by (simp add: posting_def POST_not_configured env_no_public_def env_truthy_def
        not_configured_def json_response_def)

text \<open>
  C6, amended. When both credentials are configured: a request whose body is the empty
  text is answered with status 400, and a request whose non-empty body \<open>JSON.parse\<close>
  rejects is answered with status 400 and a \<open>details\<close> field that is the parser's message.
  In both cases the body has been read and no call to the provider is made.
\<close>

theorem bad_body_400:
  assumes "env_truthy (MJ_APIKEY_PUBLIC env)" and "env_truthy (MJ_APIKEY_PRIVATE env)"
  shows "(request_text rq = Inr [] \<longrightarrow>
            fst (POST rt env rq) = [ReadBody] \<and> status (snd (POST rt env rq)) = 400)
       \<and> (request_text rq = Inr b \<and> b \<noteq> [] \<and> JSON_parse rt b = Inl m \<longrightarrow>
            fst (POST rt env rq) = [ReadBody] \<and> status (snd (POST rt env rq)) = 400
            \<and> details (snd (POST rt env rq)) = Some (JStr m))"
  using POST_body_empty [OF assms, of rq rt] POST_invalid_json [OF assms, of rq b rt m]
  by (simp add: body_empty_def invalid_json_def json_response_def details_def)

theorem bad_body_400_witness:
  "env_truthy (MJ_APIKEY_PUBLIC env_ok) \<and> env_truthy (MJ_APIKEY_PRIVATE env_ok)
   \<and> status (snd (POST (example_runtime (answering accepted)) env_ok (posting []))) = 400
   \<and> JSON_parse (example_runtime (answering accepted)) ''{'' = Inl ''Unexpected end of JSON input''
   \<and> status (snd (POST (example_runtime (answering accepted)) env_ok (posting ''{''))) = 400
   \<and> details (snd (POST (example_runtime (answering accepted)) env_ok (posting ''{'')))
       = Some (JStr ''Unexpected end of JSON input'')"
proof -
  have pub: "env_truthy (MJ_APIKEY_PUBLIC env_ok)" and priv: "env_truthy (MJ_APIKEY_PRIVATE env_ok)"
    by (simp_all add: env_ok_def env_truthy_def)
  have rejected: "JSON_parse (example_runtime (answering accepted)) ''{'' = Inl ''Unexpected end of JSON input''"
    by (simp add: example_defs)
  from bad_body_400 [OF pub priv, of "posting []" "example_runtime (answering accepted)"]
       bad_body_400 [OF pub priv, of "posting ''{''" "example_runtime (answering accepted)" "''{''"
                       "''Unexpected end of JSON input''"]
       pub priv rejected
  show ?thesis
    by (simp add: posting_def)
qed

subsection \<open>Missing required fields\<close>

text \<open>
  C5, as stated: every submission whose parsed body lacks a required field is answered
  with status 400. It fails in two ways. With a credential missing the answer is 500, the
  credentials being checked first. With both credentials configured and the body \<open>null\<close>,
  a JSON text that has none of the fields, the destructuring throws and the answer is 500.
\<close>

theorem missing_fields_counterexample:
  "example_parse body_no_service = Inr data_no_service
   \<and> own_prop data_no_service ''service'' = Some (JStr [])
   \<and> status (snd (POST (example_runtime (answering accepted)) env_no_public
                       (posting body_no_service))) = 500
   \<and> example_parse ''null'' = Inr JNull
   \<and> status (snd (POST (example_runtime (answering accepted)) env_ok (posting ''null''))) = 500"
  by (simp add: handler_defs example_defs response_defs TypeError_destructure_def)

text \<open>
  C5, amended. When both credentials are configured and the body parses to a JSON value
  other than \<open>null\<close> in which \<open>name\<close>, \<open>email\<close> or \<open>service\<close> is absent or falsy (the empty
  string counts as absent), the handler answers with status 400 and a body with an \<open>error\<close>
  field, and the trace holds the reading of the body only: no call to the provider is
  made.
\<close>

theorem missing_fields_400:
  assumes "env_truthy (MJ_APIKEY_PUBLIC env)" and "env_truthy (MJ_APIKEY_PRIVATE env)"
    and "request_text rq = Inr b" and "b \<noteq> []" and "JSON_parse rt b = Inr data"
    and "data \<noteq> JNull"
    and "\<not> truthy rt (own_prop data ''name'') \<or> \<not> truthy rt (own_prop data ''email'')
         \<or> \<not> truthy rt (own_prop data ''service'')"
  shows "fst (POST rt env rq) = [ReadBody] \<and>
         status (snd (POST rt env rq)) = 400 \<and>
         has_field (body (snd (POST rt env rq))) ''error''"
proof -
  from assms have "POST rt env rq = ([ReadBody], missing_fields)"
    by (auto simp: POST_def POST_try_def parse_body_def destructure_def)
  then show ?thesis
    by (simp add: missing_fields_def json_response_def has_field_def)
qed

theorem missing_fields_400_witness:
  "env_truthy (MJ_APIKEY_PUBLIC env_ok) \<and> env_truthy (MJ_APIKEY_PRIVATE env_ok)
   \<and> JSON_parse (example_runtime (answering accepted)) body_no_service = Inr data_no_service
   \<and> \<not> truthy (example_runtime (answering accepted)) (own_prop data_no_service ''service'')
   \<and> fst (POST (example_runtime (answering accepted)) env_ok (posting body_no_service)) = [ReadBody]
   \<and> status (snd (POST (example_runtime (answering accepted)) env_ok (posting body_no_service))) = 400
   \<and> has_field (body (snd (POST (example_runtime (answering accepted)) env_ok
                                (posting body_no_service)))) ''error''"
proof -
  have pub: "env_truthy (MJ_APIKEY_PUBLIC env_ok)" and priv: "env_truthy (MJ_APIKEY_PRIVATE env_ok)"
    by (simp_all add: env_ok_def env_truthy_def)
  have read: "request_text (posting body_no_service) = Inr body_no_service"
    and nonempty: "body_no_service \<noteq> []"
    by (simp_all add: posting_def body_no_service_def)
  have parsed: "JSON_parse (example_runtime (answering accepted)) body_no_service = Inr data_no_service"
    by (simp add: example_defs)
  have nonnull: "data_no_service \<noteq> JNull"
    by (simp add: data_no_service_def)
  have falsy: "\<not> truthy (example_runtime (answering accepted)) (own_prop data_no_service ''service'')"
    by (simp add: data_no_service_def)
  then have missing: "\<not> truthy (example_runtime (answering accepted)) (own_prop data_no_service ''name'')
      \<or> \<not> truthy (example_runtime (answering accepted)) (own_prop data_no_service ''email'')
      \<or> \<not> truthy (example_runtime (answering accepted)) (own_prop data_no_service ''service'')"
    by simp
  from missing_fields_400 [OF pub priv read nonempty parsed nonnull missing] pub priv parsed falsy
  show ?thesis by simp
qed

subsection \<open>Exceptions\<close>

text \<open>
  C3, as stated: an exception raised during parsing is converted into a status-500
  response by the outer boundary. It is not: the inner \<open>catch\<close> answers it with status 400,
  and nothing is logged.
\<close>

theorem parse_exception_counterexample:
  "JSON_parse (example_runtime (answering accepted)) ''{'' = Inl ''Unexpected end of JSON input''
   \<and> fst (POST (example_runtime (answering accepted)) env_ok (posting ''{'')) = [ReadBody]
   \<and> status (snd (POST (example_runtime (answering accepted)) env_ok (posting ''{''))) = 400"
  by (simp add: handler_defs example_defs response_defs)

text \<open>
  C3, amended. No exception leaves the handler: \<open>POST\<close> is a total function to a response.
  With both credentials configured, an exception raised while the body is read or parsed
  is caught by the inner \<open>catch\<close> and answered with status 400. Every exception raised in
  the rest of the \<open>try\<close> block is caught at the outer boundary, logged, and answered with
  status 500 and a \<open>details\<close> field that is the exception's message, or \<open>Unknown error\<close>
  when the message is absent or empty. That covers the destructuring of a \<open>null\<close> body, a
  rejected network call and a provider response that cannot be decoded.
\<close>

theorem exceptions_caught:
  assumes "env_truthy (MJ_APIKEY_PUBLIC env)" and "env_truthy (MJ_APIKEY_PRIVATE env)"
  shows "(request_text rq = Inl e \<longrightarrow> status (snd (POST rt env rq)) = 400)
       \<and> (request_text rq = Inr b \<and> b \<noteq> [] \<and> JSON_parse rt b = Inl m \<longrightarrow>
            status (snd (POST rt env rq)) = 400)
       \<and> (POST_try rt env rq = (evs, Inl e) \<longrightarrow>
            fst (POST rt env rq) = evs @ [ConsoleError e]
            \<and> status (snd (POST rt env rq)) = 500
            \<and> details (snd (POST rt env rq)) =
                Some (JStr (case message_of e of
                              None \<Rightarrow> ''Unknown error''
                            | Some t \<Rightarrow> if t = [] then ''Unknown error'' else t)))
       \<and> (request_text rq = Inr b \<and> b \<noteq> [] \<and> JSON_parse rt b = Inr JNull \<longrightarrow>
            POST_try rt env rq = ([ReadBody], Inl TypeError_destructure))
       \<and> (Fetch call \<in> set (fst (POST rt env rq)) \<and> fetch rt call = Inl e \<longrightarrow>
            snd (POST rt env rq) = failed e)
       \<and> (Fetch call \<in> set (fst (POST rt env rq)) \<and> fetch rt call = Inr mailjetResponse
            \<and> json_result mailjetResponse = Inl e \<longrightarrow>
            snd (POST rt env rq) = failed e)"
proof (intro conjI impI)
  assume rejected: "request_text rq = Inl e"
  from POST_text_rejected [OF assms rejected, of rt] show "status (snd (POST rt env rq)) = 400"
    by (simp add: invalid_json_def json_response_def)
next
  assume "request_text rq = Inr b \<and> b \<noteq> [] \<and> JSON_parse rt b = Inl m"
  then have "POST rt env rq = ([ReadBody], invalid_json m)"
    using assms by (simp add: POST_invalid_json)
  then show "status (snd (POST rt env rq)) = 400"
    by (simp add: invalid_json_def json_response_def)
next
  assume thrown: "POST_try rt env rq = (evs, Inl e)"
  from POST_caught [OF thrown] show "fst (POST rt env rq) = evs @ [ConsoleError e]"
    by simp
  from POST_caught [OF thrown] show "status (snd (POST rt env rq)) = 500"
    by (simp add: status_failed)
  from POST_caught [OF thrown]
  show "details (snd (POST rt env rq)) =
          Some (JStr (case message_of e of
                        None \<Rightarrow> ''Unknown error''
                      | Some t \<Rightarrow> if t = [] then ''Unknown error'' else t))"
    by (simp add: details_failed or_default_def env_truthy_def split: option.splits)
next
  assume "request_text rq = Inr b \<and> b \<noteq> [] \<and> JSON_parse rt b = Inr JNull"
  with assms show "POST_try rt env rq = ([ReadBody], Inl TypeError_destructure)"
    by (simp add: POST_try_def parse_body_def destructure_def)
next
  assume "Fetch call \<in> set (fst (POST rt env rq)) \<and> fetch rt call = Inl e"
  with POST_after_fetch [of call rt env rq] show "snd (POST rt env rq) = failed e"
    by (simp add: andThen_def)
next
  assume "Fetch call \<in> set (fst (POST rt env rq)) \<and> fetch rt call = Inr mailjetResponse
            \<and> json_result mailjetResponse = Inl e"
  with POST_after_fetch [of call rt env rq] show "snd (POST rt env rq) = failed e"
    by (simp add: andThen_def provider_outcome_def)
qed

theorem exceptions_caught_witness:
  "env_truthy (MJ_APIKEY_PUBLIC env_ok) \<and> env_truthy (MJ_APIKEY_PRIVATE env_ok)
   \<and> status (snd (POST (example_runtime unreachable) env_ok unreadable)) = 400
   \<and> status (snd (POST (example_runtime unreachable) env_ok (posting ''{''))) = 400
   \<and> POST_try (example_runtime unreachable) env_ok (posting body_min)
       = ([ReadBody, Fetch call_min], Inl (ErrorInstance ''fetch failed''))
   \<and> fst (POST (example_runtime unreachable) env_ok (posting body_min))
       = [ReadBody, Fetch call_min, ConsoleError (ErrorInstance ''fetch failed'')]
   \<and> status (snd (POST (example_runtime unreachable) env_ok (posting body_min))) = 500
   \<and> details (snd (POST (example_runtime unreachable) env_ok (posting body_min)))
       = Some (JStr ''fetch failed'')
   \<and> POST_try (example_runtime unreachable) env_ok (posting ''null'')
       = ([ReadBody], Inl TypeError_destructure)
   \<and> snd (POST (example_runtime (answering bad_gateway)) env_ok (posting body_min))
       = failed (ErrorInstance ''Unexpected token < in JSON at position 0'')"
proof -
  have pub: "env_truthy (MJ_APIKEY_PUBLIC env_ok)" and priv: "env_truthy (MJ_APIKEY_PRIVATE env_ok)"
    by (simp_all add: env_ok_def env_truthy_def)
  note caught = exceptions_caught [OF pub priv]
  have unread: "status (snd (POST (example_runtime unreachable) env_ok unreadable)) = 400"
    using caught [where ?rq = unreadable and ?e = "ErrorInstance ''Body is unusable''"
                    and ?rt = "example_runtime unreachable"]
    by (simp add: unreadable_def)
  have unparsed: "status (snd (POST (example_runtime unreachable) env_ok (posting ''{''))) = 400"
    using caught [where ?rq = "posting ''{''" and ?b = "''{''"
                    and ?m = "''Unexpected end of JSON input''"
                    and ?rt = "example_runtime unreachable"]
    by (simp add: example_defs)
  have thrown: "POST_try (example_runtime unreachable) env_ok (posting body_min)
                  = ([ReadBody, Fetch call_min], Inl (ErrorInstance ''fetch failed''))"
    by (simp add: handler_defs example_defs call_min_def indent_def closing_def placeholder_def)
  have network: "fst (POST (example_runtime unreachable) env_ok (posting body_min))
       = [ReadBody, Fetch call_min, ConsoleError (ErrorInstance ''fetch failed'')]
     \<and> status (snd (POST (example_runtime unreachable) env_ok (posting body_min))) = 500
     \<and> details (snd (POST (example_runtime unreachable) env_ok (posting body_min)))
         = Some (JStr ''fetch failed'')"
    using caught [where ?rq = "posting body_min" and ?e = "ErrorInstance ''fetch failed''"
                    and ?rt = "example_runtime unreachable"
                    and ?evs = "[ReadBody, Fetch call_min]"] thrown
    by (simp add: message_of_def)
  have null: "POST_try (example_runtime unreachable) env_ok (posting ''null'')
                = ([ReadBody], Inl TypeError_destructure)"
    using caught [where ?rq = "posting ''null''" and ?b = "''null''"
                    and ?rt = "example_runtime unreachable"]
    by (simp add: example_defs)
  have undecoded: "snd (POST (example_runtime (answering bad_gateway)) env_ok (posting body_min))
       = failed (ErrorInstance ''Unexpected token < in JSON at position 0'')"
    using caught [where ?rq = "posting body_min" and ?rt = "example_runtime (answering bad_gateway)"
                    and ?call = call_min and ?mailjetResponse = bad_gateway
                    and ?e = "ErrorInstance ''Unexpected token < in JSON at position 0''"]
          reach_min [of bad_gateway] answering_fetch [of bad_gateway call_min]
    by (simp add: bad_gateway_def)
  from pub priv unread unparsed thrown network null undecoded show ?thesis
    by simp
qed

subsection \<open>Provider failure\<close>

lemma provider_outcome_failure:
  assumes "json_result mailjetResponse = Inr result" and "result \<noteq> JNull"
    and "\<not> ok mailjetResponse \<or> own_prop result ''Messages'' = None
         \<or> own_prop result ''Messages'' = Some (JArr [])"
  shows "provider_outcome rt mailjetResponse =
           andThen (errorMsg rt result) (\<lambda>msg.
           andThen (to_string_opt rt msg) (\<lambda>m. Inl (ErrorInstance m)))"
  using assms
  by (auto simp: provider_outcome_def delivered_def get_def andThen_def)

lemma provider_outcome_never_other:
  "provider_outcome rt mailjetResponse = Inr r \<Longrightarrow> r = sent"
  by (auto simp: provider_outcome_def andThen_def split: sum.splits if_splits)

lemma provider_outcome_not_sent:
  assumes "\<not> ok mailjetResponse
           \<or> (\<exists>result. json_result mailjetResponse = Inr result
                \<and> (own_prop result ''Messages'' = None
                    \<or> own_prop result ''Messages'' = Some (JArr [])))"
  shows "\<exists>e. provider_outcome rt mailjetResponse = Inl e"
  using assms
  by (auto simp: provider_outcome_def delivered_def get_def andThen_def
           split: sum.splits if_splits)

text \<open>
  C2, as stated: after a non-ok status with no \<open>ErrorMessage\<close> anywhere in the provider's
  response, \<open>details\<close> is the generic \<open>Failed to send email\<close>; with a top-level
  \<open>ErrorMessage\<close> present, \<open>details\<close> is that message. The first fails when the body of the
  response is not JSON, or is the JSON text \<open>null\<close>: decoding it, or reading a field of
  it, throws, and \<open>details\<close> is the message of that exception. The second fails when the
  \<open>ErrorMessage\<close> present is the empty string: it is passed over as falsy.
\<close>

theorem provider_failure_counterexample:
  "\<not> ok bad_gateway
   \<and> details (snd (POST (example_runtime (answering bad_gateway)) env_ok (posting body_min)))
       = Some (JStr ''Unexpected token < in JSON at position 0'')
   \<and> \<not> ok answered_null \<and> json_result answered_null = Inr JNull
   \<and> details (snd (POST (example_runtime (answering answered_null)) env_ok (posting body_min)))
       = Some (JStr (''Cannot read properties of null (reading '' @ [CHR 0x27]
                     @ ''ErrorMessage'' @ [CHR 0x27] @ '')''))
   \<and> \<not> ok refused_blank
   \<and> json_result refused_blank = Inr (JObj [(''ErrorMessage'', JStr [])])
   \<and> details (snd (POST (example_runtime (answering refused_blank)) env_ok (posting body_min)))
       = Some (JStr ''Failed to send email'')"
  by (simp add: run_min provider_outcome_def delivered_def errorMsg_def get_def andThen_def
        bad_gateway_def answered_null_def refused_blank_def details_failed message_of_def
        or_default_def env_truthy_def TypeError_read_def nested_error_def opt_get_def
        opt_index0_def to_string_opt_def)

text \<open>
  C2, amended. In every invocation in which the call to the provider returns a non-ok
  status, or a decoded response whose \<open>Messages\<close> is missing or an empty list, the handler
  answers with status 500. If moreover the response decodes to a JSON value other than
  \<open>null\<close>, the \<open>details\<close> field is the top-level \<open>ErrorMessage\<close> when that is a non-empty
  string; failing a truthy top-level \<open>ErrorMessage\<close>, it is the \<open>ErrorMessage\<close> of the
  first error of the first message when that is a non-empty string; and when neither of
  the two is truthy it is the generic \<open>Failed to send email\<close>.
\<close>

theorem provider_failure_500:
  assumes "Fetch call \<in> set (fst (POST rt env rq))"
    and "fetch rt call = Inr mailjetResponse"
    and "\<not> ok mailjetResponse
         \<or> (\<exists>result. json_result mailjetResponse = Inr result
              \<and> (own_prop result ''Messages'' = None
                  \<or> own_prop result ''Messages'' = Some (JArr [])))"
  shows "status (snd (POST rt env rq)) = 500
       \<and> (json_result mailjetResponse = Inr result \<and> result \<noteq> JNull \<longrightarrow>
            (own_prop result ''ErrorMessage'' = Some (JStr s) \<and> s \<noteq> [] \<longrightarrow>
               details (snd (POST rt env rq)) = Some (JStr s))
          \<and> (\<not> truthy rt (own_prop result ''ErrorMessage'')
              \<and> nested_error (own_prop result ''Messages'') = Some (JStr t) \<and> t \<noteq> [] \<longrightarrow>
               details (snd (POST rt env rq)) = Some (JStr t))
          \<and> (\<not> truthy rt (own_prop result ''ErrorMessage'')
              \<and> \<not> truthy rt (nested_error (own_prop result ''Messages'')) \<longrightarrow>
               details (snd (POST rt env rq)) = Some (JStr ''Failed to send email'')))"
proof (intro conjI impI)
  from provider_outcome_not_sent [OF assms(3)]
  obtain e where "provider_outcome rt mailjetResponse = Inl e"
    by blast
  with POST_after_fetch [OF assms(1)] assms(2) show "status (snd (POST rt env rq)) = 500"
    by (simp add: andThen_def status_failed)
next
  assume decoded: "json_result mailjetResponse = Inr result \<and> result \<noteq> JNull"
  with assms(3) have "\<not> ok mailjetResponse \<or> own_prop result ''Messages'' = None
      \<or> own_prop result ''Messages'' = Some (JArr [])"
    by auto
  with decoded have outcome: "provider_outcome rt mailjetResponse =
      andThen (errorMsg rt result) (\<lambda>msg.
      andThen (to_string_opt rt msg) (\<lambda>m. Inl (ErrorInstance m)))"
    by (simp add: provider_outcome_failure)
  {
    assume "own_prop result ''ErrorMessage'' = Some (JStr s) \<and> s \<noteq> []"
    with decoded outcome have "provider_outcome rt mailjetResponse = Inl (ErrorInstance s)"
      by (simp add: errorMsg_def get_def andThen_def to_string_opt_def)
    with POST_after_fetch [OF assms(1)] assms(2) \<open>own_prop result ''ErrorMessage'' = Some (JStr s) \<and> s \<noteq> []\<close>
    show "details (snd (POST rt env rq)) = Some (JStr s)"
      by (simp add: andThen_def details_failed message_of_def or_default_def env_truthy_def)
  }
  {
    assume nested: "\<not> truthy rt (own_prop result ''ErrorMessage'')
              \<and> nested_error (own_prop result ''Messages'') = Some (JStr t) \<and> t \<noteq> []"
    with decoded outcome have "provider_outcome rt mailjetResponse = Inl (ErrorInstance t)"
      by (simp add: errorMsg_def get_def andThen_def to_string_opt_def)
    with POST_after_fetch [OF assms(1)] assms(2) nested
    show "details (snd (POST rt env rq)) = Some (JStr t)"
      by (simp add: andThen_def details_failed message_of_def or_default_def env_truthy_def)
  }
  {
    assume "\<not> truthy rt (own_prop result ''ErrorMessage'')
              \<and> \<not> truthy rt (nested_error (own_prop result ''Messages''))"
    with decoded outcome
    have "provider_outcome rt mailjetResponse = Inl (ErrorInstance ''Failed to send email'')"
      by (simp add: errorMsg_def get_def andThen_def to_string_opt_def)
    with POST_after_fetch [OF assms(1)] assms(2)
    show "details (snd (POST rt env rq)) = Some (JStr ''Failed to send email'')"
      by (simp add: andThen_def details_failed message_of_def or_default_def env_truthy_def)
  }
qed


theorem provider_failure_500_witness:
  "\<not> ok refused \<and> \<not> ok refused_message \<and> \<not> ok refused_silent
   \<and> status (snd (POST (example_runtime (answering refused)) env_ok (posting body_min))) = 500
   \<and> details (snd (POST (example_runtime (answering refused)) env_ok (posting body_min)))
       = Some (JStr ''API key authentication failure'')
   \<and> details (snd (POST (example_runtime (answering refused_message)) env_ok (posting body_min)))
       = Some (JStr ''Invalid email address'')
   \<and> details (snd (POST (example_runtime (answering refused_silent)) env_ok (posting body_min)))
       = Some (JStr ''Failed to send email'')"
proof -
  have not_ok: "\<not> ok refused" "\<not> ok refused_message" "\<not> ok refused_silent"
    by (simp_all add: refused_def refused_message_def refused_silent_def)
  have top: "status (snd (POST (example_runtime (answering refused)) env_ok (posting body_min))) = 500
      \<and> details (snd (POST (example_runtime (answering refused)) env_ok (posting body_min)))
          = Some (JStr ''API key authentication failure'')"
    using provider_failure_500 [OF reach_min answering_fetch, of refused
        "JObj [(''ErrorMessage'', JStr ''API key authentication failure'')]"
        "''API key authentication failure''"]
    by (simp add: refused_def)
  have nested: "details (snd (POST (example_runtime (answering refused_message)) env_ok (posting body_min)))
          = Some (JStr ''Invalid email address'')"
    using provider_failure_500 [OF reach_min answering_fetch, of refused_message
        "JObj [(''Messages'', JArr [JObj [
           (''Status'', JStr ''error''),
           (''Errors'', JArr [JObj [(''ErrorMessage'', JStr ''Invalid email address'')]])]])]"
        _ "''Invalid email address''"]
    by (simp add: refused_message_def nested_error_def opt_get_def opt_index0_def)
  have generic: "details (snd (POST (example_runtime (answering refused_silent)) env_ok (posting body_min)))
          = Some (JStr ''Failed to send email'')"
    using provider_failure_500 [OF reach_min answering_fetch, of refused_silent "JObj []"]
    by (simp add: refused_silent_def nested_error_def opt_get_def opt_index0_def)
  from not_ok top nested generic show ?thesis
    by simp
qed

subsection \<open>Occurrences in a rendering\<close>

lemma sublist_concat_member: "x \<in> set xss \<Longrightarrow> sublist x (concat xss)"
proof (induction xss)
  case Nil
  then show ?case by simp
next
  case (Cons ys xss)
  then show ?case
    by (auto simp: sublist_append)
qed

lemma html_template_concat:
  "html_template n e ph sv ed m al =
     concat [indent @ ''<h2>New Contact Form Submission</h2>'' @ indent
               @ ''<p><strong>Name:</strong> '',
             n, ''</p>'' @ indent @ ''<p><strong>Email:</strong> '',
             e, ''</p>'' @ indent,
             ph, indent @ ''<p><strong>Service Type:</strong> '',
             sv, ''</p>'' @ indent,
             ed, indent @ ''<p><strong>Message:</strong></p>'' @ indent @ ''<p>'',
             m, ''</p>'' @ indent,
             al, closing]"
  by (simp add: html_template_def)

lemma text_template_concat:
  "text_template n e ph sv ed m al =
     concat [indent @ ''New Contact Form Submission'' @ indent @ indent @ ''Name: '',
             n, indent @ ''Email: '',
             e, indent,
             ph, indent @ ''Service Type: '',
             sv, indent,
             ed, indent @ indent @ ''Message:'' @ indent,
             m, indent @ indent,
             al, closing]"
  by (simp add: text_template_def)

lemma html_template_contains:
  "sublist n (html_template n e ph sv ed m al)"
  "sublist e (html_template n e ph sv ed m al)"
  "sublist ph (html_template n e ph sv ed m al)"
  "sublist sv (html_template n e ph sv ed m al)"
  "sublist ed (html_template n e ph sv ed m al)"
  "sublist m (html_template n e ph sv ed m al)"
  "sublist al (html_template n e ph sv ed m al)"
  by (subst html_template_concat, rule sublist_concat_member, simp)+

lemma text_template_contains:
  "sublist n (text_template n e ph sv ed m al)"
  "sublist e (text_template n e ph sv ed m al)"
  "sublist ph (text_template n e ph sv ed m al)"
  "sublist sv (text_template n e ph sv ed m al)"
  "sublist ed (text_template n e ph sv ed m al)"
  "sublist m (text_template n e ph sv ed m al)"
  "sublist al (text_template n e ph sv ed m al)"
  by (subst text_template_concat, rule sublist_concat_member, simp)+

lemma sublist_trans: "sublist xs ys \<Longrightarrow> sublist ys zs \<Longrightarrow> sublist xs zs"
  by (rule sublist_order.order.trans)


text \<open>An occurrence of \<open>l\<close> cannot contain a character that \<open>l\<close> does not have.\<close>

lemma sublist_separator:
  assumes "c \<notin> set l" and "sublist l (xs @ c # ys)"
  shows "sublist l xs \<or> sublist l ys"
proof -
  from assms(2) consider "sublist l xs" | "sublist l (c # ys)"
    | l1 l2 where "l = l1 @ l2" "suffix l1 xs" "prefix l2 (c # ys)"
    by (auto simp: sublist_append)
  then show ?thesis
  proof cases
    case 1
    then show ?thesis by simp
  next
    case 2
    then have "prefix l (c # ys) \<or> sublist l ys"
      by (simp add: sublist_Cons_right)
    with assms(1) show ?thesis
      by (cases l) (auto simp: prefix_Cons)
  next
    case 3
    show ?thesis
    proof (cases l2)
      case Nil
      with 3 have "suffix l xs" by simp
      then show ?thesis by (auto simp: suffix_imp_sublist)
    next
      case (Cons d l2')
      with 3(3) have "d = c" by simp
      with 3(1) Cons assms(1) show ?thesis by simp
    qed
  qed
qed

text \<open>An occurrence of \<open>l\<close> in \<open>a @ v\<close> lies in \<open>v\<close> when it can neither lie in \<open>a\<close> nor start
  there.\<close>

lemma sublist_past_prefix:
  assumes "no_overlap l a" and "\<not> sublist l a" and "sublist l (a @ v)"
  shows "sublist l v"
proof -
  from assms(2,3) consider "sublist l v"
    | l1 l2 where "l = l1 @ l2" "suffix l1 a" "prefix l2 v"
    by (auto simp: sublist_append)
  then show ?thesis
  proof cases
    case 1
    then show ?thesis .
  next
    case 2
    from 2(1) have "l1 \<in> set (prefixes l)"
      by (simp add: in_set_prefixes)
    with assms(1) have "l1 = [] \<or> \<not> suffix l1 a"
      by (auto simp: no_overlap_def list_all_iff)
    with 2 show ?thesis
      by auto
  qed
qed

text \<open>Three values between four fixed pieces, each value followed by the separator \<open>c\<close>.\<close>

lemma label_confined:
  assumes sep: "c \<notin> set l"
    and a0: "no_overlap l a0" "\<not> sublist l a0"
    and a1: "no_overlap l a1" "\<not> sublist l a1"
    and a2: "no_overlap l a2" "\<not> sublist l a2"
    and a3: "\<not> sublist l a3"
    and occurs: "sublist l (a0 @ n @ c # a1 @ e @ c # a2 @ sv @ c # a3)"
  shows "sublist l n \<or> sublist l e \<or> sublist l sv"
proof -
  from occurs have "sublist l ((a0 @ n) @ c # (a1 @ e @ c # a2 @ sv @ c # a3))"
    by simp
  from sublist_separator [OF sep this]
  consider "sublist l (a0 @ n)" | "sublist l ((a1 @ e) @ c # (a2 @ sv @ c # a3))"
    by auto
  then show ?thesis
  proof cases
    case 1
    with a0 show ?thesis by (auto dest: sublist_past_prefix)
  next
    case 2
    from sublist_separator [OF sep this]
    consider "sublist l (a1 @ e)" | "sublist l ((a2 @ sv) @ c # a3)"
      by auto
    then show ?thesis
    proof cases
      case 1
      with a1 show ?thesis by (auto dest: sublist_past_prefix)
    next
      case 2
      from sublist_separator [OF sep this] a3 have "sublist l (a2 @ sv)"
        by auto
      with a2 show ?thesis by (auto dest: sublist_past_prefix)
    qed
  qed
qed

text \<open>With the three optional substitutions empty and the placeholder for the message,
  the HTML rendering is three values between four fixed pieces, each value followed by
  \<open><\<close>; the plaintext rendering likewise, each value followed by a newline.\<close>

lemma html_optional_absent_confined:
  assumes "l \<in> set optional_labels"
    and "sublist l (html_template n e [] sv [] placeholder [])"
  shows "sublist l n \<or> sublist l e \<or> sublist l sv"
proof -
  define a0 where "a0 = indent @ ''<h2>New Contact Form Submission</h2>'' @ indent
                          @ ''<p><strong>Name:</strong> ''"
  define a1 where "a1 = ''/p>'' @ indent @ ''<p><strong>Email:</strong> ''"
  define a2 where "a2 = ''/p>'' @ indent @ indent @ ''<p><strong>Service Type:</strong> ''"
  define a3 where "a3 = ''/p>'' @ indent @ indent @ ''<p><strong>Message:</strong></p>''
                          @ indent @ ''<p>'' @ placeholder @ ''</p>'' @ indent @ closing"
  have shape: "html_template n e [] sv [] placeholder [] =
                 a0 @ n @ CHR ''<'' # a1 @ e @ CHR ''<'' # a2 @ sv @ CHR ''<'' # a3"
    by (simp add: html_template_def a0_def a1_def a2_def a3_def)
  have sep: "CHR ''<'' \<notin> set l"
    using assms(1) by (auto simp: optional_labels_def)
  have a0: "no_overlap l a0" "\<not> sublist l a0"
    using assms(1) unfolding a0_def optional_labels_def by (auto; code_simp)+
  have a1: "no_overlap l a1" "\<not> sublist l a1"
    using assms(1) unfolding a1_def optional_labels_def by (auto; code_simp)+
  have a2: "no_overlap l a2" "\<not> sublist l a2"
    using assms(1) unfolding a2_def optional_labels_def by (auto; code_simp)+
  have a3: "\<not> sublist l a3"
    using assms(1) unfolding a3_def optional_labels_def by (auto; code_simp)+
  from assms(2) have "sublist l (a0 @ n @ CHR ''<'' # a1 @ e @ CHR ''<'' # a2 @ sv @ CHR ''<'' # a3)"
    by (simp only: shape)
  from label_confined [OF sep a0 a1 a2 a3 this] show ?thesis .
qed

lemma text_optional_absent_confined:
  assumes "l \<in> set optional_labels"
    and "sublist l (text_template n e [] sv [] placeholder [])"
  shows "sublist l n \<or> sublist l e \<or> sublist l sv"
proof -
  define tabs where "tabs = [CHR 0x09, CHR 0x09, CHR 0x09]"
  define b0 where "b0 = indent @ ''New Contact Form Submission'' @ indent @ indent @ ''Name: ''"
  define b1 where "b1 = [CHR 0x09, CHR 0x09, CHR 0x09] @ ''Email: ''"
  define b2 where "b2 = [CHR 0x09, CHR 0x09, CHR 0x09] @ indent @ ''Service Type: ''"
  define b3 where "b3 = [CHR 0x09, CHR 0x09, CHR 0x09] @ indent @ indent @ ''Message:'' @ indent
                          @ placeholder @ indent @ indent @ closing"
  have shape: "text_template n e [] sv [] placeholder [] =
                 b0 @ n @ CHR 0x0A # b1 @ e @ CHR 0x0A # b2 @ sv @ CHR 0x0A # b3"
    by (simp add: text_template_def b0_def b1_def b2_def b3_def indent_def)
  have sep: "CHR 0x0A \<notin> set l"
    using assms(1) by (auto simp: optional_labels_def)
  have b0: "no_overlap l b0" "\<not> sublist l b0"
    using assms(1) unfolding b0_def optional_labels_def by (auto; code_simp)+
  have b1: "no_overlap l b1" "\<not> sublist l b1"
    using assms(1) unfolding b1_def optional_labels_def by (auto; code_simp)+
  have b2: "no_overlap l b2" "\<not> sublist l b2"
    using assms(1) unfolding b2_def optional_labels_def by (auto; code_simp)+
  have b3: "\<not> sublist l b3"
    using assms(1) unfolding b3_def optional_labels_def by (auto; code_simp)+
  from assms(2) have "sublist l (b0 @ n @ CHR 0x0A # b1 @ e @ CHR 0x0A # b2 @ sv @ CHR 0x0A # b3)"
    by (simp only: shape)
  from label_confined [OF sep b0 b1 b2 b3 this] show ?thesis .
qed

subsection \<open>Rendering a well-formed submission\<close>

lemma to_string_text: "to_string_opt rt (Some (JStr x)) = Inr x"
  by (simp add: to_string_opt_def)

lemma optional_section_absent: "optional_section rt None lead trail = Inr []"
  by (simp add: optional_section_def)


lemma andThen_Inr: "andThen (Inr x) f = f x"
  by (simp add: andThen_def)

subsection \<open>Optional fields left out\<close>

text \<open>
  C7, as stated: with \<open>phone\<close> absent, the label of the phone section appears in neither
  rendering. It does when a required field holds the label's text: the values are
  interpolated as they are.
\<close>

theorem optional_omitted_counterexample:
  "phone submission_phone_in_name = None
   \<and> htmlContent (example_runtime unreachable) submission_phone_in_name
       = Inr (html_template ''Ada Phone: 555-0100'' ''ada@example.org'' [] ''Wedding'' []
               ''No message provided'' [])
   \<and> sublist ''Phone:'' (html_template ''Ada Phone: 555-0100'' ''ada@example.org'' [] ''Wedding'' []
                           ''No message provided'' [])
   \<and> textContent (example_runtime unreachable) submission_phone_in_name
       = Inr (text_template ''Ada Phone: 555-0100'' ''ada@example.org'' [] ''Wedding'' []
               ''No message provided'' [])
   \<and> sublist ''Phone:'' (text_template ''Ada Phone: 555-0100'' ''ada@example.org'' [] ''Wedding'' []
                           ''No message provided'' [])"
proof -
  have "sublist ''Phone:'' (''Ada '' @ ''Phone:'' @ '' 555-0100'')"
    by (rule sublist_appendI)
  then have in_name: "sublist ''Phone:'' ''Ada Phone: 555-0100''"
    by simp
  from sublist_trans [OF in_name html_template_contains(1)]
       sublist_trans [OF in_name text_template_contains(1)]
  show ?thesis
    by (simp add: submission_phone_in_name_def htmlContent_def textContent_def to_string_text
          optional_section_absent andThen_Inr message_or_placeholder_def placeholder_def)
qed

text \<open>
  C7, amended. For every well-formed submission in which \<open>phone\<close>, \<open>event-date\<close>, \<open>message\<close>
  and \<open>allergies\<close> are all absent, both renderings are the template with the empty string
  in the phone, event-date and allergies positions and the placeholder
  \<open>No message provided\<close> in the position of the message. So both contain the placeholder,
  and the label of a phone, event-date or allergies section occurs in a rendering only
  where a submitted name, email or service value contains it.
\<close>

theorem optional_omitted:
  assumes "name s = Some (JStr n)" and "n \<noteq> []"
    and "email s = Some (JStr e)" and "e \<noteq> []"
    and "service s = Some (JStr sv)" and "sv \<noteq> []"
    and "phone s = None" and "eventDate s = None" and "message s = None"
    and "allergies s = None"
  shows "htmlContent rt s = Inr (html_template n e [] sv [] ''No message provided'' [])
       \<and> textContent rt s = Inr (text_template n e [] sv [] ''No message provided'' [])
       \<and> sublist ''No message provided'' (html_template n e [] sv [] ''No message provided'' [])
       \<and> sublist ''No message provided'' (text_template n e [] sv [] ''No message provided'' [])
       \<and> (\<forall>l \<in> set optional_labels.
            sublist l (html_template n e [] sv [] ''No message provided'' [])
            \<or> sublist l (text_template n e [] sv [] ''No message provided'' [])
            \<longrightarrow> sublist l n \<or> sublist l e \<or> sublist l sv)"
proof -
  have html: "htmlContent rt s = Inr (html_template n e [] sv [] placeholder [])"
    using assms
    by (simp add: htmlContent_def to_string_text optional_section_absent andThen_Inr
          message_or_placeholder_def)
  have plain: "textContent rt s = Inr (text_template n e [] sv [] placeholder [])"
    using assms
    by (simp add: textContent_def to_string_text optional_section_absent andThen_Inr
          message_or_placeholder_def)
  have confined: "\<forall>l \<in> set optional_labels.
            sublist l (html_template n e [] sv [] placeholder [])
            \<or> sublist l (text_template n e [] sv [] placeholder [])
            \<longrightarrow> sublist l n \<or> sublist l e \<or> sublist l sv"
    using html_optional_absent_confined text_optional_absent_confined
    by blast
  from html plain confined
       html_template_contains(6) [of placeholder n e "[]" sv "[]" "[]"]
       text_template_contains(6) [of placeholder n e "[]" sv "[]" "[]"]
  show ?thesis
    by (simp only: placeholder_def)
qed

theorem optional_omitted_witness:
  "name submission_min = Some (JStr ''Ada'') \<and> phone submission_min = None
   \<and> htmlContent (example_runtime unreachable) submission_min
       = Inr (html_template ''Ada'' ''ada@example.org'' [] ''Wedding'' [] ''No message provided'' [])
   \<and> sublist ''No message provided''
        (html_template ''Ada'' ''ada@example.org'' [] ''Wedding'' [] ''No message provided'' [])
   \<and> \<not> sublist ''Phone:''
        (html_template ''Ada'' ''ada@example.org'' [] ''Wedding'' [] ''No message provided'' [])
   \<and> \<not> sublist ''Phone:''
        (text_template ''Ada'' ''ada@example.org'' [] ''Wedding'' [] ''No message provided'' [])"
proof -
  have fields: "name submission_min = Some (JStr ''Ada'')" "''Ada'' \<noteq> []"
    "email submission_min = Some (JStr ''ada@example.org'')" "''ada@example.org'' \<noteq> []"
    "service submission_min = Some (JStr ''Wedding'')" "''Wedding'' \<noteq> []"
    "phone submission_min = None" "eventDate submission_min = None"
    "message submission_min = None" "allergies submission_min = None"
    by (simp_all add: submission_min_def)
  have label: "''Phone:'' \<in> set optional_labels"
    by (simp add: optional_labels_def)
  have clean: "\<not> sublist ''Phone:'' ''Ada''" "\<not> sublist ''Phone:'' ''ada@example.org''"
    "\<not> sublist ''Phone:'' ''Wedding''"
    by code_simp+
  from optional_omitted [OF fields, of "example_runtime unreachable"] label clean fields(1,7)
  show ?thesis
    by blast
qed

subsection \<open>All fields present\<close>



subsection \<open>The service field\<close>




end
